theory Spec2Isabelle
  imports Complex_Main
begin

section \<open>Data model\<close>

text \<open>
  The server keeps its data in two document collections, \<open>Booking\<close> and \<open>Payment\<close>; a
  collection is a list of documents in insertion order. An ObjectId is a string and a
  Date is its number of milliseconds since the epoch. The prices and totals of a booking
  are binary64 values (type \<open>double\<close>, below); the amounts of the payment handlers are
  rationals (type \<open>number\<close>). Fields that no handler below reads or writes (address, time
  slot, notifications, invoice, ...) are left out of the records, and so is the
  \<open>updatedAt\<close> stamp that Mongoose keeps.
\<close>

type_synonym oid = string
type_synonym number = rat
type_synonym date = int

datatype role = Customer | Staff | Admin

record user =
  u_id :: oid
  u_role :: role

text \<open>An Express response: status code, message, and the \<open>data\<close> member when there is one.\<close>

datatype 'a response = Response (res_status: nat) (res_message: string) (res_data: "'a option")

subsection \<open>JavaScript Numbers in the pricing code\<close>

text \<open>
  A double is a rational (\<open>Fin\<close>), an infinity or NaN. Negative zero is not told apart
  from zero; no operation used below can observe the difference.
\<close>

datatype double = Fin rat | PosInf | NegInf | NaN

text \<open>The number of binary digits of a positive integer.\<close>

function bitLength :: "int \<Rightarrow> int" where
  "bitLength n = (if n \<le> 0 then 0 else 1 + bitLength (n div 2))"
  by pat_completeness auto
termination
  by (relation "measure nat") auto

declare bitLength.simps [simp del]

definition pow2 :: "int \<Rightarrow> rat" where
  "pow2 e = (if 0 \<le> e then 2 ^ nat e else 1 / 2 ^ nat (- e))"

text \<open>For \<open>x > 0\<close>, the exponent \<open>e\<close> with \<open>pow2 e \<le> x < pow2 (e + 1)\<close>.\<close>

definition ilog2 :: "rat \<Rightarrow> int" where
  "ilog2 x = (if 1 \<le> x then bitLength \<lfloor>x\<rfloor> - 1 else - bitLength (\<lceil>1 / x\<rceil> - 1))"

definition roundHalfEven :: "rat \<Rightarrow> int" where
  "roundHalfEven y =
     (let f = \<lfloor>y\<rfloor>; r = y - of_int f
      in if r < 1 / 2 then f else if 1 / 2 < r then f + 1 else if even f then f else f + 1)"

text \<open>
  \<open>round64 x\<close> is the double nearest to the rational \<open>x\<close>, a tie going to the even
  significand: 53 significant bits at exponents from -1022 to 1023, below that the fixed
  spacing \<open>pow2 (- 1074)\<close> of the subnormal numbers, and an infinity once the rounded value
  reaches \<open>pow2 1024\<close>.
\<close>

definition round64 :: "rat \<Rightarrow> double" where
  "round64 x =
     (if x = 0 then Fin 0
      else
        let a = \<bar>x\<bar>;
            e = max (ilog2 a) (- 1022);
            q = pow2 (e - 52);
            m = of_int (roundHalfEven (a / q)) * q
        in if pow2 1024 \<le> m then (if 0 < x then PosInf else NegInf)
           else Fin (if 0 < x then m else - m))"

text \<open>\<open>x + y\<close>, \<open>x * y\<close> and \<open>x / y\<close> on Numbers.\<close>

fun js_add :: "double \<Rightarrow> double \<Rightarrow> double" where
  "js_add (Fin a) (Fin b) = round64 (a + b)"
| "js_add NaN y = NaN"
| "js_add x NaN = NaN"
| "js_add PosInf NegInf = NaN"
| "js_add NegInf PosInf = NaN"
| "js_add (Fin a) y = y"
| "js_add x y = x"

fun js_mul :: "double \<Rightarrow> double \<Rightarrow> double" where
  "js_mul (Fin a) (Fin b) = round64 (a * b)"
| "js_mul NaN y = NaN"
| "js_mul x NaN = NaN"
| "js_mul (Fin a) y = (if a = 0 then NaN else if (0 < a) = (y = PosInf) then PosInf else NegInf)"
| "js_mul x (Fin b) = (if b = 0 then NaN else if (0 < b) = (x = PosInf) then PosInf else NegInf)"
| "js_mul x y = (if x = y then PosInf else NegInf)"

fun js_div :: "double \<Rightarrow> double \<Rightarrow> double" where
  "js_div (Fin a) (Fin b) =
     (if b = 0 then (if a = 0 then NaN else if 0 < a then PosInf else NegInf)
      else round64 (a / b))"
| "js_div NaN y = NaN"
| "js_div x NaN = NaN"
| "js_div (Fin a) y = Fin 0"
| "js_div x (Fin b) = (if (0 \<le> b) = (x = PosInf) then PosInf else NegInf)"
| "js_div x y = NaN"

text \<open>
  \<open>Math.round\<close>: the nearest integer, a tie going towards plus infinity. The integer is
  itself a double, so nothing is rounded a second time.
\<close>

fun Math_round :: "double \<Rightarrow> double" where
  "Math_round (Fin x) = Fin (of_int \<lfloor>x + 1 / 2\<rfloor>)"
| "Math_round x = x"

text \<open>The operand of \<open>||\<close> is falsy when it is NaN or zero.\<close>

definition falsy :: "double \<Rightarrow> bool" where
  "falsy x = (x = NaN \<or> x = Fin 0)"

text \<open>\<open>x >= m\<close> for a finite bound \<open>m\<close>, as the schema's \<open>min\<close> validators compare.\<close>

fun js_ge :: "double \<Rightarrow> rat \<Rightarrow> bool" where
  "js_ge (Fin a) m = (m \<le> a)"
| "js_ge PosInf m = True"
| "js_ge x m = False"

subsection \<open>Booking documents (models/Booking.js)\<close>

text \<open>
  The schema's enum lists six states; \<open>BRefunded\<close> is the string \<open>'refunded'\<close> that the
  refund controller writes through \<open>findByIdAndUpdate\<close>, which runs no validators.
\<close>

datatype booking_status =
  BPending | BConfirmed | BAssigned | BIn_progress | BCompleted | BCancelled | BRefunded

record addOn =
  ao_name :: string
  ao_price :: double

record bookedService =
  bs_serviceId :: oid
  bs_serviceName :: string
  bs_quantity :: double
  bs_basePrice :: double
  bs_addOns :: "addOn list"
  bs_subtotal :: double

record pricing =
  subtotal :: double
  tax :: double
  discount :: double
  total :: double

record cancellation =
  isCancelled :: bool
  cancelledBy :: "oid option"
  cancelledAt :: "date option"
  cancellationReason :: "string option"
  c_refundAmount :: "number option"

text \<open>\<open>payment\<close> is a reference: the schema types it \<open>ObjectId\<close>, \<open>ref: 'Payment'\<close>.\<close>

record booking =
  b_id :: oid
  bookingNumber :: string
  b_customerId :: oid
  b_services :: "bookedService list"
  scheduledDate :: date
  b_pricing :: pricing
  b_status :: booking_status
  b_cancellation :: cancellation
  b_payment :: "oid option"
  b_createdAt :: date

subsection \<open>Payment documents (models/Payment.js)\<close>

datatype payment_status =
  PInitiated | PPending | PSuccess | PFailed | PCancelled | PRefunded

record paymentDetails =
  razorpayOrderId :: string
  razorpayPaymentId :: string
  razorpaySignature :: string

record refund =
  isRefunded :: bool
  refundAmount :: "number option"
  refundTransactionId :: "string option"
  refundedAt :: "date option"
  refundReason :: "string option"
  processedBy :: "oid option"

record payment =
  p_id :: oid
  transactionId :: string
  p_bookingId :: oid
  p_customerId :: oid
  amount :: number
  gatewayOrderId :: "string option"
  gatewayTransactionId :: "string option"
  p_status :: payment_status
  p_details :: "paymentDetails option"
  p_refund :: refund
  p_createdAt :: date

subsection \<open>The store and the payment gateway\<close>

record orderOptions =
  oo_amount :: number
  oo_currency :: string
  oo_receipt :: string
  oo_bookingId :: oid
  oo_customerId :: oid

record gatewayOrder =
  go_id :: string
  go_amount :: number
  go_currency :: string

record gatewayRefund =
  gr_id :: string
  gr_amount :: number
  gr_status :: string

text \<open>
  The Razorpay client. Each call either returns or throws (\<open>None\<close>). The module-level
  variable \<open>razorpay\<close> is \<open>null\<close> when no keys are configured, so it is an option.
\<close>

record razorpayClient =
  orders_create :: "orderOptions \<Rightarrow> gatewayOrder option"
  payments_refund :: "string option \<Rightarrow> number \<Rightarrow> string \<Rightarrow> gatewayRefund option"

datatype gatewayCall =
  OrderCreated orderOptions
  | RefundIssued "string option" number

text \<open>
  The state the handlers act on: the two collections, and the calls that reached the
  gateway (its orders and refunds live outside the server).
\<close>

record store =
  payments :: "payment list"
  bookings :: "booking list"
  gatewayCalls :: "gatewayCall list"

subsection \<open>Mongoose queries\<close>

text \<open>\<open>Model.findOne(filter)\<close>: the first document that matches.\<close>

fun findOne :: "('a \<Rightarrow> bool) \<Rightarrow> 'a list \<Rightarrow> 'a option" where
  "findOne f [] = None"
| "findOne f (d # ds) = (if f d then Some d else findOne f ds)"

text \<open>
  \<open>Model.findOneAndUpdate(filter, update)\<close>: the first document that matches is
  updated in place; the collection is unchanged when none matches.
\<close>

fun updateOne :: "('a \<Rightarrow> bool) \<Rightarrow> ('a \<Rightarrow> 'a) \<Rightarrow> 'a list \<Rightarrow> 'a list" where
  "updateOne f u [] = []"
| "updateOne f u (d # ds) = (if f d then u d # ds else d # updateOne f u ds)"

definition findOneAndUpdate ::
  "('a \<Rightarrow> bool) \<Rightarrow> ('a \<Rightarrow> 'a) \<Rightarrow> 'a list \<Rightarrow> 'a option \<times> 'a list" where
  "findOneAndUpdate f u ds = (map_option u (findOne f ds), updateOne f u ds)"

section \<open>Booking lifecycle\<close>

subsection \<open>Cancellation window (models/Booking.js, controllers/bookingController.js)\<close>

text \<open>
  \<open>canCancel\<close>: \<open>now < twoHoursBefore && ['pending', 'confirmed'].includes(this.status)\<close>,
  where \<open>twoHoursBefore = scheduledTime.getTime() - 2 * 60 * 60 * 1000\<close>.
\<close>

definition canCancel :: "date \<Rightarrow> booking \<Rightarrow> bool" where
  "canCancel now b =
     (let scheduledTime = scheduledDate b;
          twoHoursBefore = scheduledTime - 2 * 60 * 60 * 1000
      in now < twoHoursBefore \<and> b_status b \<in> set [BPending, BConfirmed])"

text \<open>\<open>req.body.reason || 'Cancelled by user'\<close>: an absent or empty reason is falsy.\<close>

definition reasonOr :: "string option \<Rightarrow> string \<Rightarrow> string" where
  "reasonOr r dflt = (case r of None \<Rightarrow> dflt | Some s \<Rightarrow> if s = [] then dflt else s)"

definition cancelBooking ::
  "date \<Rightarrow> user \<Rightarrow> oid \<Rightarrow> string option \<Rightarrow> store \<Rightarrow> unit response \<times> store" where
  "cancelBooking now usr bid reason st =
     (case findOne (\<lambda>b. b_id b = bid) (bookings st) of
        None \<Rightarrow> (Response 404 ''Booking not found'' None, st)
      | Some b \<Rightarrow>
          if u_role usr = Customer \<and> b_customerId b \<noteq> u_id usr
          then (Response 403 ''Not authorized to cancel this booking'' None, st)
          else if \<not> canCancel now b
          then (Response 400 ''Booking cannot be cancelled at this time'' None, st)
          else
            let b' = b\<lparr>b_status := BCancelled,
                       b_cancellation :=
                         \<lparr>isCancelled = True, cancelledBy = Some (u_id usr),
                          cancelledAt = Some now,
                          cancellationReason = Some (reasonOr reason ''Cancelled by user''),
                          c_refundAmount = None\<rparr>\<rparr>
            in (Response 200 ''Booking cancelled successfully'' None,
                st\<lparr>bookings := updateOne (\<lambda>d. b_id d = bid) (\<lambda>_. b') (bookings st)\<rparr>))"

subsection \<open>Pricing at booking creation (controllers/bookingController.js)\<close>

record service =
  s_id :: oid
  serviceName :: string
  isActive :: bool
  basePrice :: double

record serviceItem =
  si_serviceId :: oid
  si_quantity :: double
  si_addOns :: "addOn list option"

text \<open>
  \<open>serviceItem.addOns?.reduce((sum, addOn) => sum + addOn.price, 0) || 0\<close>: without
  add-ons the left operand is \<open>undefined\<close>; a sum that is NaN or zero gives 0 as well.
\<close>

definition addOnTotal :: "addOn list option \<Rightarrow> double" where
  "addOnTotal aos =
     (case aos of
        None \<Rightarrow> Fin 0
      | Some xs \<Rightarrow>
          let r = foldl (\<lambda>sum a. js_add sum (ao_price a)) (Fin 0) xs
          in if falsy r then Fin 0 else r)"

definition itemTotal :: "double \<Rightarrow> serviceItem \<Rightarrow> double" where
  "itemTotal base item = js_mul (js_add base (addOnTotal (si_addOns item))) (si_quantity item)"

text \<open>
  The loop over \<open>req.body.services\<close>, with its two accumulators. It leaves at the first
  item whose service is missing or inactive (the 400 response names that service id).
\<close>

fun validateServices ::
  "service list \<Rightarrow> serviceItem list \<Rightarrow> double \<Rightarrow> bookedService list
     \<Rightarrow> oid + double \<times> bookedService list" where
  "validateServices catalog [] sub validated = Inr (sub, validated)"
| "validateServices catalog (item # items) sub validated =
     (case findOne (\<lambda>s. s_id s = si_serviceId item) catalog of
        None \<Rightarrow> Inl (si_serviceId item)
      | Some svc \<Rightarrow>
          if \<not> isActive svc then Inl (si_serviceId item)
          else
            validateServices catalog items (js_add sub (itemTotal (basePrice svc) item))
              (validated @
                [\<lparr>bs_serviceId = s_id svc, bs_serviceName = serviceName svc,
                  bs_quantity = si_quantity item, bs_basePrice = basePrice svc,
                  bs_addOns = (case si_addOns item of None \<Rightarrow> [] | Some xs \<Rightarrow> xs),
                  bs_subtotal = itemTotal (basePrice svc) item\<rparr>]))"

text \<open>
  \<open>const tax = Math.round(subtotal * 0.18 * 100) / 100; const total = subtotal + tax;\<close>
  The literal \<open>0.18\<close> is the double nearest to 18/100, and the product is taken from the
  left. The schema's default puts \<open>discount\<close> at 0.
\<close>

definition computePricing :: "double \<Rightarrow> pricing" where
  "computePricing sub =
     (let tx = js_div (Math_round (js_mul (js_mul sub (round64 (18 / 100))) (Fin 100))) (Fin 100)
      in \<lparr>subtotal = sub, tax = tx, discount = Fin 0, total = js_add sub tx\<rparr>)"

subsection \<open>Saving a new booking (models/Booking.js)\<close>

text \<open>
  What \<open>new Date()\<close> gives: the instant, the text of
  \<open>toISOString().slice(0, 10).replace(/-/g, '')\<close>, and the two local midnights that bound
  the day.
\<close>

record clock =
  instant :: date
  dateStr :: string
  dayStart :: date
  dayEnd :: date

definition digit :: "nat \<Rightarrow> char" where
  "digit d = ''0123456789'' ! d"

text \<open>\<open>Number.prototype.toString\<close> of a natural number: its decimal digits.\<close>

function toString :: "nat \<Rightarrow> string" where
  "toString n = (if n < 10 then [digit n] else toString (n div 10) @ [digit (n mod 10)])"
  by pat_completeness auto
termination
  by (relation "measure id") auto

declare toString.simps [simp del]

text \<open>\<open>String.prototype.padStart\<close>: a string already long enough is returned unchanged.\<close>

definition padStart :: "nat \<Rightarrow> char \<Rightarrow> string \<Rightarrow> string" where
  "padStart n c s = replicate (n - length s) c @ s"

definition countDocuments :: "clock \<Rightarrow> booking list \<Rightarrow> nat" where
  "countDocuments c bs =
     length (filter (\<lambda>b. dayStart c \<le> b_createdAt b \<and> b_createdAt b < dayEnd c) bs)"

definition generateBookingNumber :: "clock \<Rightarrow> nat \<Rightarrow> string" where
  "generateBookingNumber c count =
     (let sequence = padStart 4 CHR ''0'' (toString (count + 1))
      in ''DC'' @ dateStr c @ sequence)"

text \<open>
  The pre-save hook: \<open>if (this.isNew && !this.bookingNumber)\<close> the number is built from
  the count of the day's bookings. It is called on new documents only.
\<close>

definition preSave :: "clock \<Rightarrow> booking list \<Rightarrow> booking \<Rightarrow> booking" where
  "preSave c bs doc =
     (if bookingNumber doc = []
      then doc\<lparr>bookingNumber := generateBookingNumber c (countDocuments c bs)\<rparr>
      else doc)"

text \<open>
  The schema's validators on the fields modelled here: \<open>bookingNumber\<close> is required (an
  empty string does not satisfy \<open>required\<close>), \<open>min\<close> on quantities and prices, and
  \<open>scheduledDate >= new Date()\<close>.
\<close>

definition validBookedService :: "bookedService \<Rightarrow> bool" where
  "validBookedService s =
     (js_ge (bs_quantity s) 1 \<and> js_ge (bs_basePrice s) 0
      \<and> list_all (\<lambda>a. js_ge (ao_price a) 0) (bs_addOns s) \<and> js_ge (bs_subtotal s) 0)"

definition validateBooking :: "date \<Rightarrow> booking \<Rightarrow> bool" where
  "validateBooking t b =
     (bookingNumber b \<noteq> []
      \<and> list_all validBookedService (b_services b)
      \<and> t \<le> scheduledDate b
      \<and> js_ge (subtotal (b_pricing b)) 0 \<and> js_ge (tax (b_pricing b)) 0
      \<and> js_ge (discount (b_pricing b)) 0 \<and> js_ge (total (b_pricing b)) 0)"

text \<open>
  \<open>Booking.create(doc)\<close>. Mongoose validates a document before it runs the schema's own
  \<open>pre('save')\<close> hooks, so the order is: validators, then the hook, then the insert, which
  the unique index on \<open>bookingNumber\<close> can refuse. \<open>None\<close> is a rejected promise.
\<close>

definition Booking_create :: "clock \<Rightarrow> booking \<Rightarrow> store \<Rightarrow> (booking \<times> store) option" where
  "Booking_create c doc st =
     (if \<not> validateBooking (instant c) doc then None
      else
        let saved = preSave c (bookings st) doc
        in if list_ex (\<lambda>b. bookingNumber b = bookingNumber saved) (bookings st) then None
           else Some (saved, st\<lparr>bookings := bookings st @ [saved]\<rparr>))"

record bookingBody =
  bb_services :: "serviceItem list"
  bb_scheduledDate :: date

text \<open>
  The object that \<open>createBooking\<close> hands to \<open>Booking.create\<close>: it names no \<open>bookingNumber\<close>;
  status, discount and the cancellation flag take the schema's defaults.
\<close>

definition newBooking ::
  "clock \<Rightarrow> oid \<Rightarrow> user \<Rightarrow> bookingBody \<Rightarrow> double \<Rightarrow> bookedService list \<Rightarrow> booking" where
  "newBooking c newId usr body sub validated =
     \<lparr>b_id = newId, bookingNumber = [], b_customerId = u_id usr,
      b_services = validated, scheduledDate = bb_scheduledDate body,
      b_pricing = computePricing sub, b_status = BPending,
      b_cancellation =
        \<lparr>isCancelled = False, cancelledBy = None, cancelledAt = None,
         cancellationReason = None, c_refundAmount = None\<rparr>,
      b_payment = None, b_createdAt = instant c\<rparr>"

definition createBooking ::
  "service list \<Rightarrow> clock \<Rightarrow> oid \<Rightarrow> user \<Rightarrow> bookingBody \<Rightarrow> store
     \<Rightarrow> booking response \<times> store" where
  "createBooking catalog c newId usr body st =
     (case validateServices catalog (bb_services body) (Fin 0) [] of
        Inl sid \<Rightarrow>
          (Response 400 (''Service '' @ sid @ '' not found or inactive'') None, st)
      | Inr (sub, validated) \<Rightarrow>
          (case Booking_create c (newBooking c newId usr body sub validated) st of
             None \<Rightarrow> (Response 500 ''Failed to create booking'' None, st)
           | Some (saved, st') \<Rightarrow>
               (Response 201 ''Booking created successfully'' (Some saved), st')))"

section \<open>Payments (controllers/paymentController.js)\<close>

record webhookPayment =
  pe_id :: string
  pe_order_id :: string

record webhookRefund =
  re_id :: string
  re_payment_id :: string
  re_amount :: number

text \<open>
  The parsed webhook body: \<open>event\<close>, \<open>payload.payment.entity\<close> and
  \<open>payload.refund.entity\<close>; reading \<open>.entity\<close> of a missing member throws.
\<close>

record webhookBody =
  event :: string
  payload_payment :: "webhookPayment option"
  payload_refund :: "webhookRefund option"

text \<open>
  What the handlers take from Node and the process environment:
  \<open>crypto.createHmac('sha256', key).update(msg).digest('hex')\<close> as a function of key and
  message, \<open>JSON.stringify\<close> on a webhook body, and the two secrets (\<open>createHmac\<close> throws
  on an undefined key).
\<close>

record platform =
  hmac_sha256 :: "string \<Rightarrow> string \<Rightarrow> string"
  json_stringify :: "webhookBody \<Rightarrow> string"
  key_secret :: "string option"
  webhook_secret :: "string option"

subsection \<open>createOrder\<close>

record orderBody =
  ob_bookingId :: oid
  ob_amount :: number

record orderData =
  od_orderId :: string
  od_amount :: number
  od_currency :: string
  od_paymentId :: oid

definition createOrder ::
  "razorpayClient option \<Rightarrow> date \<Rightarrow> oid \<Rightarrow> user \<Rightarrow> orderBody \<Rightarrow> store
     \<Rightarrow> orderData response \<times> store" where
  "createOrder razorpay t newId usr body st =
     (case findOne (\<lambda>b. b_id b = ob_bookingId body) (bookings st) of
        None \<Rightarrow> (Response 404 ''Booking not found'' None, st)
      | Some bk \<Rightarrow>
          if b_customerId bk \<noteq> u_id usr
          then (Response 403 ''Not authorized to pay for this booking'' None, st)
          else if b_status bk \<noteq> BConfirmed
          then (Response 400 ''Booking must be confirmed before payment'' None, st)
          else
            let existingPayment = findOne (\<lambda>p. p_bookingId p = ob_bookingId body) (payments st)
            in if (case existingPayment of None \<Rightarrow> False | Some p \<Rightarrow> p_status p = PSuccess)
               then (Response 400 ''Payment already completed for this booking'' None, st)
               else
                 let options = \<lparr>oo_amount = ob_amount body * 100, oo_currency = ''INR'',
                                 oo_receipt = ''booking_'' @ bookingNumber bk,
                                 oo_bookingId = ob_bookingId body, oo_customerId = u_id usr\<rparr>
                 in (case (case razorpay of None \<Rightarrow> None | Some cl \<Rightarrow> orders_create cl options) of
                      None \<Rightarrow> (Response 500 ''Failed to create payment order'' None, st)
                    | Some order \<Rightarrow>
                        let st1 = st\<lparr>gatewayCalls := gatewayCalls st @ [OrderCreated options]\<rparr>;
                            pay = \<lparr>p_id = newId, transactionId = go_id order,
                                   p_bookingId = ob_bookingId body, p_customerId = u_id usr,
                                   amount = ob_amount body, gatewayOrderId = Some (go_id order),
                                   gatewayTransactionId = None, p_status = PInitiated,
                                   p_details = None,
                                   p_refund =
                                     \<lparr>isRefunded = False, refundAmount = None,
                                      refundTransactionId = None, refundedAt = None,
                                      refundReason = None, processedBy = None\<rparr>,
                                   p_createdAt = t\<rparr>
                        in if ob_amount body < 0
                              \<or> list_ex (\<lambda>p. transactionId p = go_id order) (payments st)
                           then (Response 500 ''Failed to create payment order'' None, st1)
                           else (Response 200 ''Payment order created successfully''
                                   (Some \<lparr>od_orderId = go_id order, od_amount = go_amount order,
                                          od_currency = go_currency order, od_paymentId = newId\<rparr>),
                                 st1\<lparr>payments := payments st @ [pay]\<rparr>)))"

subsection \<open>verifyPayment\<close>

record verifyBody =
  razorpay_order_id :: string
  razorpay_payment_id :: string
  razorpay_signature :: string
  vb_bookingId :: oid

record verifyData =
  vd_paymentId :: oid
  vd_transactionId :: string

definition expectedSign :: "platform \<Rightarrow> string \<Rightarrow> verifyBody \<Rightarrow> string" where
  "expectedSign pf key body =
     (let sign = razorpay_order_id body @ ''|'' @ razorpay_payment_id body
      in hmac_sha256 pf key sign)"

definition markVerified :: "verifyBody \<Rightarrow> payment \<Rightarrow> payment" where
  "markVerified body p =
     p\<lparr>gatewayTransactionId := Some (razorpay_payment_id body),
       p_status := PSuccess,
       p_details := Some \<lparr>razorpayOrderId = razorpay_order_id body,
                          razorpayPaymentId = razorpay_payment_id body,
                          razorpaySignature = razorpay_signature body\<rparr>\<rparr>"

text \<open>
  The value that the handler writes to the booking's \<open>payment\<close> path is an object,
  \<open>{ paymentId, paymentStatus, paymentMethod }\<close>. Mongoose casts every value of an update
  to the type of its path before the update is sent: an ObjectId casts to itself, an
  object without \<open>_id\<close> does not cast to ObjectId and the call throws a CastError.
\<close>

record paymentObject =
  paymentId :: oid
  paymentStatus :: string
  paymentMethod :: string

datatype written = AnObjectId oid | AnObject paymentObject

fun castObjectId :: "written \<Rightarrow> oid option" where
  "castObjectId (AnObjectId i) = Some i"
| "castObjectId (AnObject obj) = None"

text \<open>
  \<open>Booking.findByIdAndUpdate(id, { status, payment })\<close>; \<open>None\<close> is the thrown CastError.
\<close>

definition updateBookingPayment ::
  "oid \<Rightarrow> booking_status \<Rightarrow> written \<Rightarrow> booking list \<Rightarrow> booking list option" where
  "updateBookingPayment bid status value bs =
     (case castObjectId value of
        None \<Rightarrow> None
      | Some ref \<Rightarrow>
          Some (updateOne (\<lambda>b. b_id b = bid)
                  (\<lambda>b. b\<lparr>b_status := status, b_payment := Some ref\<rparr>) bs))"

definition verifyPayment ::
  "platform \<Rightarrow> user \<Rightarrow> verifyBody \<Rightarrow> store \<Rightarrow> verifyData response \<times> store" where
  "verifyPayment pf usr body st =
     (case key_secret pf of
        None \<Rightarrow> (Response 500 ''Payment verification failed'' None, st)
      | Some key \<Rightarrow>
          if razorpay_signature body \<noteq> expectedSign pf key body
          then (Response 400 ''Payment verification failed'' None, st)
          else
            (case findOneAndUpdate (\<lambda>p. transactionId p = razorpay_order_id body)
                   (markVerified body) (payments st) of
              (None, ps) \<Rightarrow> (Response 404 ''Payment record not found'' None, st)
            | (Some pay, ps) \<Rightarrow>
                (case updateBookingPayment (vb_bookingId body) BAssigned
                        (AnObject \<lparr>paymentId = p_id pay, paymentStatus = ''completed'',
                                   paymentMethod = ''razorpay''\<rparr>) (bookings st) of
                   None \<Rightarrow>
                     (Response 500 ''Payment verification failed'' None, st\<lparr>payments := ps\<rparr>)
                 | Some bs \<Rightarrow>
                     (Response 200 ''Payment verified successfully''
                        (Some \<lparr>vd_paymentId = p_id pay,
                               vd_transactionId = razorpay_payment_id body\<rparr>),
                      st\<lparr>payments := ps, bookings := bs\<rparr>))))"

subsection \<open>getPayment and getBookingPayments\<close>

text \<open>
  \<open>getPayment\<close> populates the Payment's booking with two selected fields. When that
  booking exists, writing the response evaluates the booking's \<open>estimatedDuration\<close>
  virtual, which reads \<open>this.services\<close>, a path that was not selected: the TypeError is
  caught and answered 500. The Payment's customer is taken to exist.
\<close>

definition getPayment :: "user \<Rightarrow> oid \<Rightarrow> store \<Rightarrow> payment response" where
  "getPayment usr pid st =
     (case findOne (\<lambda>p. p_id p = pid) (payments st) of
        None \<Rightarrow> Response 404 ''Payment not found'' None
      | Some pay \<Rightarrow>
          if u_role usr = Customer \<and> p_customerId pay \<noteq> u_id usr
          then Response 403 ''Not authorized to view this payment'' None
          else if list_ex (\<lambda>b. b_id b = p_bookingId pay) (bookings st)
          then Response 500 ''Failed to retrieve payment details'' None
          else Response 200 ''Payment details retrieved successfully'' (Some pay))"

text \<open>\<open>Payment.find({ bookingId }).sort({ createdAt: -1 })\<close>: newest first.\<close>

definition getBookingPayments :: "user \<Rightarrow> oid \<Rightarrow> store \<Rightarrow> payment list response" where
  "getBookingPayments usr bid st =
     (let found = rev (sort_key p_createdAt (filter (\<lambda>p. p_bookingId p = bid) (payments st)))
      in Response 200 ''Booking payments retrieved successfully'' (Some found))"

subsection \<open>processRefund: the controller, and the method of the Payment schema\<close>

record refundBody =
  rb_amount :: number
  rb_reason :: "string option"

record refundData =
  rd_refundId :: string
  rd_amount :: number
  rd_status :: string

text \<open>
  The controller. \<open>payment.save()\<close> runs the schema's validators, of which
  \<open>refundAmount >= 0\<close> is the one that can fail here; by then the gateway has refunded.
\<close>

definition processRefund ::
  "razorpayClient option \<Rightarrow> date \<Rightarrow> oid \<Rightarrow> refundBody \<Rightarrow> store
     \<Rightarrow> refundData response \<times> store" where
  "processRefund razorpay t pid body st =
     (case findOne (\<lambda>p. p_id p = pid) (payments st) of
        None \<Rightarrow> (Response 404 ''Payment not found'' None, st)
      | Some pay \<Rightarrow>
          if p_status pay \<noteq> PSuccess
          then (Response 400 ''Only successful payments can be refunded'' None, st)
          else
            (case (case razorpay of None \<Rightarrow> None
                  | Some cl \<Rightarrow>
                      payments_refund cl (gatewayTransactionId pay) (rb_amount body * 100)
                        (reasonOr (rb_reason body) ''Customer requested refund'')) of
              None \<Rightarrow> (Response 500 ''Refund processing failed'' None, st)
            | Some rf \<Rightarrow>
                let st1 = st\<lparr>gatewayCalls := gatewayCalls st @
                              [RefundIssued (gatewayTransactionId pay) (rb_amount body * 100)]\<rparr>;
                    pay' = pay\<lparr>p_refund :=
                                 \<lparr>isRefunded = True, refundAmount = Some (rb_amount body),
                                  refundTransactionId = Some (gr_id rf), refundedAt = Some t,
                                  refundReason = rb_reason body, processedBy = None\<rparr>,
                               p_status := PRefunded\<rparr>
                in if rb_amount body < 0
                   then (Response 500 ''Refund processing failed'' None, st1)
                   else
                     (Response 200 ''Refund processed successfully''
                        (Some \<lparr>rd_refundId = gr_id rf, rd_amount = gr_amount rf / 100,
                               rd_status = gr_status rf\<rparr>),
                      st1\<lparr>payments := updateOne (\<lambda>p. p_id p = pid) (\<lambda>_. pay') (payments st),
                          bookings := updateOne (\<lambda>b. b_id b = p_bookingId pay)
                            (\<lambda>b. b\<lparr>b_status := BRefunded,
                                   b_cancellation :=
                                     \<lparr>isCancelled = True, cancelledBy = None,
                                      cancelledAt = Some t, cancellationReason = None,
                                      c_refundAmount = Some (rb_amount body)\<rparr>\<rparr>)
                            (bookings st)\<rparr>)))"

definition canRefund :: "payment \<Rightarrow> bool" where
  "canRefund p =
     (let refundableStatuses = [PSuccess];
          nonRefundableStatuses = [PRefunded, PFailed, PCancelled]
      in p_status p \<in> set refundableStatuses
         \<and> p_status p \<notin> set nonRefundableStatuses
         \<and> \<not> isRefunded (p_refund p))"

text \<open>
  \<open>paymentSchema.methods.processRefund\<close>, called on the document \<open>pay\<close>; a thrown Error
  is \<open>Inl\<close> of its message, and the save replaces the stored document.
\<close>

definition payment_processRefund ::
  "date \<Rightarrow> payment \<Rightarrow> number \<Rightarrow> string option \<Rightarrow> oid option \<Rightarrow> store \<Rightarrow> string + store" where
  "payment_processRefund t pay amt reason by st =
     (if \<not> canRefund pay then Inl ''Payment cannot be refunded''
      else if amt > amount pay then Inl ''Refund amount cannot exceed payment amount''
      else
        let p1 = pay\<lparr>p_refund :=
                       \<lparr>isRefunded = True, refundAmount = Some amt,
                        refundTransactionId = None, refundedAt = Some t,
                        refundReason = reason, processedBy = by\<rparr>\<rparr>;
            p2 = (if amt \<ge> amount pay then p1\<lparr>p_status := PRefunded\<rparr> else p1)
        in if amt < 0 then Inl ''Validation failed''
           else Inr (st\<lparr>payments := updateOne (\<lambda>p. p_id p = p_id pay) (\<lambda>_. p2) (payments st)\<rparr>))"

subsection \<open>handleRazorpayWebhook\<close>

definition markCaptured :: "webhookPayment \<Rightarrow> payment \<Rightarrow> payment" where
  "markCaptured pe p = p\<lparr>p_status := PSuccess, gatewayTransactionId := Some (pe_id pe)\<rparr>"

definition markFailed :: "payment \<Rightarrow> payment" where
  "markFailed p = p\<lparr>p_status := PFailed\<rparr>"

definition markRefundProcessed :: "date \<Rightarrow> webhookRefund \<Rightarrow> payment \<Rightarrow> payment" where
  "markRefundProcessed t re p =
     p\<lparr>p_refund := (p_refund p)\<lparr>isRefunded := True,
                                  refundAmount := Some (re_amount re / 100),
                                  refundTransactionId := Some (re_id re),
                                  refundedAt := Some t\<rparr>\<rparr>"

definition handleRazorpayWebhook ::
  "platform \<Rightarrow> date \<Rightarrow> string option \<Rightarrow> webhookBody \<Rightarrow> store \<Rightarrow> unit response \<times> store" where
  "handleRazorpayWebhook pf t signature body st =
     (case webhook_secret pf of
        None \<Rightarrow> (Response 500 ''Internal server error'' None, st)
      | Some secret \<Rightarrow>
          let expectedSignature = hmac_sha256 pf secret (json_stringify pf body)
          in if signature \<noteq> Some expectedSignature
             then (Response 400 ''Invalid signature'' None, st)
             else
               (case payload_payment body of
                 None \<Rightarrow> (Response 500 ''Internal server error'' None, st)
               | Some paymentEntity \<Rightarrow>
                   if event body = ''payment.captured''
                   then (Response 200 ''OK'' None,
                         st\<lparr>payments :=
                              updateOne (\<lambda>p. transactionId p = pe_order_id paymentEntity)
                                (markCaptured paymentEntity) (payments st)\<rparr>)
                   else if event body = ''payment.failed''
                   then (Response 200 ''OK'' None,
                         st\<lparr>payments :=
                              updateOne (\<lambda>p. transactionId p = pe_order_id paymentEntity)
                                markFailed (payments st)\<rparr>)
                   else if event body = ''refund.processed''
                   then (case payload_refund body of
                           None \<Rightarrow> (Response 500 ''Internal server error'' None, st)
                         | Some refundEntity \<Rightarrow>
                             (Response 200 ''OK'' None,
                              st\<lparr>payments :=
                                   updateOne
                                     (\<lambda>p. gatewayTransactionId p = Some (re_payment_id refundEntity))
                                     (markRefundProcessed t refundEntity) (payments st)\<rparr>))
                   else (Response 200 ''OK'' None, st)))"

section \<open>Predicates of the specification\<close>

text \<open>A line item is valid when its service is in the catalog and active.\<close>

definition validItem :: "service list \<Rightarrow> serviceItem \<Rightarrow> bool" where
  "validItem catalog item =
     (case findOne (\<lambda>s. s_id s = si_serviceId item) catalog of
        None \<Rightarrow> False
      | Some svc \<Rightarrow> isActive svc)"

text \<open>
  The sum of the add-on prices as the code takes it: added up in order in binary64, a sum
  that is NaN counting as 0.
\<close>

definition addOnSum :: "addOn list \<Rightarrow> double" where
  "addOnSum xs =
     (let r = foldl js_add (Fin 0) (map ao_price xs) in if falsy r then Fin 0 else r)"

text \<open>
  The line total: the stored entry \<open>v\<close> snapshots the catalog's base price and the
  item's quantity and add-ons, and its subtotal is
  \<open>(basePrice + sum(addOn.price)) * quantity\<close>, each operation rounded to a double.
\<close>

definition pricedAs :: "service list \<Rightarrow> serviceItem \<Rightarrow> bookedService \<Rightarrow> bool" where
  "pricedAs catalog item v =
     (case findOne (\<lambda>s. s_id s = si_serviceId item) catalog of
        None \<Rightarrow> False
      | Some svc \<Rightarrow>
          bs_basePrice v = basePrice svc
          \<and> bs_quantity v = si_quantity item
          \<and> bs_addOns v = (case si_addOns item of None \<Rightarrow> [] | Some xs \<Rightarrow> xs)
          \<and> bs_subtotal v
              = js_mul (js_add (basePrice svc) (addOnSum (bs_addOns v))) (si_quantity item))"

text \<open>
  \<open>t\<close> is \<open>x\<close> rounded to two decimal places, half up, in exact arithmetic: a whole
  number of hundredths, at most half a hundredth away from \<open>x\<close>, the tie going to the
  larger one.
\<close>

definition roundedHalfUp2 :: "rat \<Rightarrow> rat \<Rightarrow> bool" where
  "roundedHalfUp2 x t =
     (of_int \<lfloor>t * 100\<rfloor> = t * 100 \<and> x - 1 / 200 < t \<and> t \<le> x + 1 / 200)"

section \<open>Example data\<close>

definition ex_catalog :: "service list" where
  "ex_catalog =
     [\<lparr>s_id = ''svc1'', serviceName = ''Deep cleaning'', isActive = True, basePrice = Fin 1000\<rparr>]"

text \<open>A catalog whose service costs 1.25, and one whose service costs 9.\<close>

definition ex_fractionCatalog :: "service list" where
  "ex_fractionCatalog =
     [\<lparr>s_id = ''svc1'', serviceName = ''Deep cleaning'', isActive = True,
       basePrice = Fin (5 / 4)\<rparr>]"

definition ex_nineCatalog :: "service list" where
  "ex_nineCatalog =
     [\<lparr>s_id = ''svc1'', serviceName = ''Deep cleaning'', isActive = True, basePrice = Fin 9\<rparr>]"

definition ex_bookingBody :: bookingBody where
  "ex_bookingBody =
     \<lparr>bb_services = [\<lparr>si_serviceId = ''svc1'', si_quantity = Fin 1, si_addOns = None\<rparr>],
      bb_scheduledDate = 1793869200000\<rparr>"

definition ex_pricing :: pricing where
  "ex_pricing = \<lparr>subtotal = Fin 1000, tax = Fin 180, discount = Fin 0, total = Fin 1180\<rparr>"

definition ex_cancellation :: cancellation where
  "ex_cancellation =
     \<lparr>isCancelled = False, cancelledBy = None, cancelledAt = None,
      cancellationReason = None, c_refundAmount = None\<rparr>"

text \<open>A confirmed booking of customer \<open>u1\<close>, scheduled at the instant 10 000 000.\<close>

definition ex_booking :: booking where
  "ex_booking =
     \<lparr>b_id = ''b1'', bookingNumber = ''DC202611010001'', b_customerId = ''u1'',
      b_services = [], scheduledDate = 10000000, b_pricing = ex_pricing,
      b_status = BConfirmed, b_cancellation = ex_cancellation, b_payment = None,
      b_createdAt = 1000\<rparr>"

definition ex_customer :: user where
  "ex_customer = \<lparr>u_id = ''u1'', u_role = Customer\<rparr>"

definition ex_otherCustomer :: user where
  "ex_otherCustomer = \<lparr>u_id = ''u2'', u_role = Customer\<rparr>"

text \<open>A pending booking of customer \<open>u2\<close>.\<close>

definition ex_otherBooking :: booking where
  "ex_otherBooking =
     \<lparr>b_id = ''b2'', bookingNumber = ''DC202611010002'', b_customerId = ''u2'',
      b_services = [], scheduledDate = 10000000, b_pricing = ex_pricing,
      b_status = BPending, b_cancellation = ex_cancellation, b_payment = None,
      b_createdAt = 1500\<rparr>"

text \<open>
  A stand-in for the keyed hash, and for \<open>JSON.stringify\<close>; the theorems below hold for
  every such pair of functions, the examples need one.
\<close>

definition ex_platform :: platform where
  "ex_platform =
     \<lparr>hmac_sha256 = (\<lambda>key msg. key @ ''#'' @ msg), json_stringify = event,
      key_secret = Some ''k1'', webhook_secret = Some ''w1''\<rparr>"

definition ex_noRefund :: refund where
  "ex_noRefund =
     \<lparr>isRefunded = False, refundAmount = None, refundTransactionId = None,
      refundedAt = None, refundReason = None, processedBy = None\<rparr>"

text \<open>
  Two payments of customer \<open>u1\<close> for booking \<open>b1\<close>: a checkout that was opened and
  left, and a later one that the gateway captured.
\<close>

definition ex_initiated :: payment where
  "ex_initiated =
     \<lparr>p_id = ''p1'', transactionId = ''order_1'', p_bookingId = ''b1'', p_customerId = ''u1'',
      amount = 1180, gatewayOrderId = Some ''order_1'', gatewayTransactionId = None,
      p_status = PInitiated, p_details = None, p_refund = ex_noRefund, p_createdAt = 2000\<rparr>"

definition ex_paid :: payment where
  "ex_paid =
     \<lparr>p_id = ''p2'', transactionId = ''order_2'', p_bookingId = ''b1'', p_customerId = ''u1'',
      amount = 1180, gatewayOrderId = Some ''order_2'', gatewayTransactionId = Some ''pay_2'',
      p_status = PSuccess, p_details = None, p_refund = ex_noRefund, p_createdAt = 3000\<rparr>"

definition ex_store :: store where
  "ex_store =
     \<lparr>payments = [ex_initiated, ex_paid], bookings = [ex_booking, ex_otherBooking],
      gatewayCalls = []\<rparr>"

definition ex_emptyStore :: store where
  "ex_emptyStore = \<lparr>payments = [], bookings = [], gatewayCalls = []\<rparr>"

text \<open>A gateway that accepts every call; its next order gets the id \<open>oid\<close>.\<close>

definition ex_gateway :: "string \<Rightarrow> razorpayClient" where
  "ex_gateway oid =
     \<lparr>orders_create = (\<lambda>opts. Some \<lparr>go_id = oid, go_amount = oo_amount opts,
                                       go_currency = oo_currency opts\<rparr>),
      payments_refund = (\<lambda>pid amt note. Some \<lparr>gr_id = ''rfnd_1'', gr_amount = amt,
                                               gr_status = ''processed''\<rparr>)\<rparr>"

definition ex_verifyBody :: verifyBody where
  "ex_verifyBody =
     \<lparr>razorpay_order_id = ''order_1'', razorpay_payment_id = ''pay_1'',
      razorpay_signature = ''k1#order_1|pay_1'', vb_bookingId = ''b2''\<rparr>"

definition ex_capturedEvent :: "string \<Rightarrow> string \<Rightarrow> webhookBody" where
  "ex_capturedEvent order pay =
     \<lparr>event = ''payment.captured'',
      payload_payment = Some \<lparr>pe_id = pay, pe_order_id = order\<rparr>,
      payload_refund = None\<rparr>"

definition ex_failedEvent :: webhookBody where
  "ex_failedEvent =
     \<lparr>event = ''payment.failed'',
      payload_payment = Some \<lparr>pe_id = ''pay_2'', pe_order_id = ''order_2''\<rparr>,
      payload_refund = None\<rparr>"

text \<open>10:00 UTC on 1 November 2026, on a server whose local time is UTC.\<close>

definition ex_clock :: clock where
  "ex_clock =
     \<lparr>instant = 1793527200000, dateStr = ''20261101'',
      dayStart = 1793491200000, dayEnd = 1793577600000\<rparr>"

section \<open>Properties\<close>

subsection \<open>Queries\<close>

lemma findOne_Some_holds: "findOne f ds = Some d \<Longrightarrow> f d"
  by (induction ds) (auto split: if_splits)

lemma findOne_updateOne_same:
  "findOne f ds = Some d \<Longrightarrow> f (u d) \<Longrightarrow> findOne f (updateOne f u ds) = Some (u d)"
  by (induction ds) (auto split: if_splits)

lemma updateOne_idem:
  assumes "\<And>d. f d \<Longrightarrow> f (u d)" and "\<And>d. u (u d) = u d"
  shows "updateOne f u (updateOne f u ds) = updateOne f u ds"
  using assms by (induction ds) auto

subsection \<open>Evaluating binary64 arithmetic\<close>

lemma bitLength_numeral [simp]:
  "bitLength 0 = 0"
  "bitLength 1 = 1"
  "bitLength (numeral k) = 1 + bitLength (numeral k div 2)"
  by (simp_all add: bitLength.simps [of 0] bitLength.simps [of 1]
      bitLength.simps [of "numeral k"])

lemma floor_numeral_div [simp]:
  "\<lfloor>numeral a / numeral b :: rat\<rfloor> = numeral a div numeral b"
  using floor_divide_of_int_eq [of "numeral a" "numeral b", where ?'a = rat] by simp

lemma ceiling_numeral_div [simp]:
  "\<lceil>numeral a / numeral b :: rat\<rceil> = - ((- numeral a) div numeral b)"
  using floor_divide_of_int_eq [of "- numeral a" "numeral b", where ?'a = rat]
  by (simp add: ceiling_def)

lemmas eval64 = round64_def ilog2_def pow2_def roundHalfEven_def Let_def

text \<open>The literals of the examples, as doubles.\<close>

lemma round64_018: "round64 (18 / 100) = Fin (3242591731706757 / 18014398509481984)"
  by (simp add: eval64)

lemma round64_022: "round64 (22 / 100) = Fin (7926335344172073 / 36028797018963968)"
  by (simp add: eval64)

lemma round64_023: "round64 (23 / 100) = Fin (8286623314361713 / 36028797018963968)"
  by (simp add: eval64)

lemma round64_small_integers:
  "round64 1000 = Fin 1000" "round64 (5 / 4) = Fin (5 / 4)" "round64 9 = Fin 9"
  by (simp_all add: eval64)

subsection \<open>Pricing\<close>

lemma addOnTotal_sum:
  "addOnTotal aos = addOnSum (case aos of None \<Rightarrow> [] | Some xs \<Rightarrow> xs)"
  by (simp add: addOnTotal_def addOnSum_def falsy_def foldl_map split: option.split)

text \<open>
  On valid items the loop runs to its end: the subtotal grows by the line totals, added
  in order, and one entry per item is appended, priced as \<open>pricedAs\<close> says.
\<close>

lemma validateServices_valid:
  "list_all (validItem catalog) items \<Longrightarrow>
   \<exists>vs. validateServices catalog items sub acc
           = Inr (foldl js_add sub (map bs_subtotal vs), acc @ vs)
        \<and> list_all2 (pricedAs catalog) items vs"
proof (induction items arbitrary: sub acc)
  case Nil
  then show ?case by simp
next
  case (Cons item items)
  from Cons.prems obtain svc where
    svc: "findOne (\<lambda>s. s_id s = si_serviceId item) catalog = Some svc" "isActive svc"
    by (auto simp: validItem_def split: option.splits)
  let ?v = "\<lparr>bs_serviceId = s_id svc, bs_serviceName = serviceName svc,
             bs_quantity = si_quantity item, bs_basePrice = basePrice svc,
             bs_addOns = (case si_addOns item of None \<Rightarrow> [] | Some xs \<Rightarrow> xs),
             bs_subtotal = itemTotal (basePrice svc) item\<rparr>"
  from Cons.prems have rest: "list_all (validItem catalog) items" by simp
  from Cons.IH [OF rest, of "js_add sub (itemTotal (basePrice svc) item)" "acc @ [?v]"]
  obtain vs where
    vs: "validateServices catalog items (js_add sub (itemTotal (basePrice svc) item))
           (acc @ [?v])
           = Inr (foldl js_add (js_add sub (itemTotal (basePrice svc) item))
                    (map bs_subtotal vs),
                  (acc @ [?v]) @ vs)"
        "list_all2 (pricedAs catalog) items vs"
    by blast
  have pv: "pricedAs catalog item ?v"
    using svc by (simp add: pricedAs_def itemTotal_def addOnTotal_sum)
  have "validateServices catalog (item # items) sub acc
          = Inr (foldl js_add sub (map bs_subtotal (?v # vs)), acc @ (?v # vs))"
    using svc vs(1) by simp
  moreover have "list_all2 (pricedAs catalog) (item # items) (?v # vs)"
    using pv vs(2) by simp
  ultimately show ?case by blast
qed

text \<open>\<open>Math.round\<close> of a finite double is the integer at most one half away, a tie going up.\<close>

lemma Math_round_half_up:
  "\<exists>k. Math_round (Fin p) = Fin (of_int k) \<and> p - 1 / 2 < of_int k \<and> of_int k \<le> p + 1 / 2"
proof -
  have "p - 1 / 2 < of_int \<lfloor>p + 1 / 2\<rfloor>" "of_int \<lfloor>p + 1 / 2\<rfloor> \<le> p + 1 / 2"
    by linarith+
  then show ?thesis by auto
qed

lemma computePricing_tax_finite:
  assumes "js_mul (js_mul sub (round64 (18 / 100))) (Fin 100) = Fin p"
  shows "\<exists>k. p - 1 / 2 < of_int k \<and> of_int k \<le> p + 1 / 2
            \<and> tax (computePricing sub) = round64 (of_int k / 100)"
proof -
  from Math_round_half_up [of p] obtain k where
    k: "Math_round (Fin p) = Fin (of_int k)" "p - 1 / 2 < of_int k" "of_int k \<le> p + 1 / 2"
    by blast
  have "tax (computePricing sub) = round64 (of_int k / 100)"
    using assms k(1) by (simp add: computePricing_def Let_def)
  with k show ?thesis by blast
qed

lemma computePricing_fields:
  "subtotal (computePricing sub) = sub"
  "total (computePricing sub) = js_add sub (tax (computePricing sub))"
  "discount (computePricing sub) = Fin 0"
  by (simp_all add: computePricing_def Let_def)

lemma computePricing_1000: "computePricing (Fin 1000) = ex_pricing"
  by (simp add: computePricing_def ex_pricing_def round64_018)
     (simp add: eval64)

text \<open>
  C1, as stated, fails in two places. A single item with base price 1.25, quantity 1 and
  no add-ons has subtotal 1.25; the exact product 1.25 * 0.18 is 0.225, which rounds half
  up to 0.23, but the tax computed is the double 0.22. And with base price 9 the subtotal
  is 9, the tax is the double 1.62 and the total is the double 10.620000000000001, which
  is not the sum of the two.
\<close>

theorem createBooking_pricing_counterexample:
  "validateServices ex_fractionCatalog (bb_services ex_bookingBody) (Fin 0) []
     = Inr (Fin (5 / 4),
            [\<lparr>bs_serviceId = ''svc1'', bs_serviceName = ''Deep cleaning'',
              bs_quantity = Fin 1, bs_basePrice = Fin (5 / 4), bs_addOns = [],
              bs_subtotal = Fin (5 / 4)\<rparr>])
   \<and> roundedHalfUp2 (5 / 4 * (18 / 100)) (23 / 100)
   \<and> tax (computePricing (Fin (5 / 4))) = round64 (22 / 100)
   \<and> round64 (22 / 100) \<noteq> round64 (23 / 100)
   \<and> validateServices ex_nineCatalog (bb_services ex_bookingBody) (Fin 0) []
     = Inr (Fin 9,
            [\<lparr>bs_serviceId = ''svc1'', bs_serviceName = ''Deep cleaning'',
              bs_quantity = Fin 1, bs_basePrice = Fin 9, bs_addOns = [],
              bs_subtotal = Fin 9\<rparr>])
   \<and> tax (computePricing (Fin 9)) = Fin (1823957849085051 / 1125899906842624)
   \<and> total (computePricing (Fin 9)) = Fin (2989264252667167 / 281474976710656)
   \<and> (2989264252667167 / 281474976710656 :: rat) \<noteq> 9 + 1823957849085051 / 1125899906842624"
proof -
  have loop1: "validateServices ex_fractionCatalog (bb_services ex_bookingBody) (Fin 0) []
     = Inr (Fin (5 / 4),
            [\<lparr>bs_serviceId = ''svc1'', bs_serviceName = ''Deep cleaning'',
              bs_quantity = Fin 1, bs_basePrice = Fin (5 / 4), bs_addOns = [],
              bs_subtotal = Fin (5 / 4)\<rparr>])"
    by (simp add: ex_fractionCatalog_def ex_bookingBody_def itemTotal_def addOnTotal_def
        round64_small_integers)
  have loop2: "validateServices ex_nineCatalog (bb_services ex_bookingBody) (Fin 0) []
     = Inr (Fin 9,
            [\<lparr>bs_serviceId = ''svc1'', bs_serviceName = ''Deep cleaning'',
              bs_quantity = Fin 1, bs_basePrice = Fin 9, bs_addOns = [],
              bs_subtotal = Fin 9\<rparr>])"
    by (simp add: ex_nineCatalog_def ex_bookingBody_def itemTotal_def addOnTotal_def
        round64_small_integers)
  have exact: "roundedHalfUp2 (5 / 4 * (18 / 100)) (23 / 100)"
    by (simp add: roundedHalfUp2_def)
  have tax1: "tax (computePricing (Fin (5 / 4))) = round64 (22 / 100)"
    by (simp add: computePricing_def round64_018 round64_022) (simp add: eval64)
  have differ: "round64 (22 / 100) \<noteq> round64 (23 / 100)"
    unfolding round64_022 round64_023 by simp
  have tax2: "tax (computePricing (Fin 9)) = Fin (1823957849085051 / 1125899906842624)"
    by (simp add: computePricing_def round64_018) (simp add: eval64)
  have total2: "total (computePricing (Fin 9)) = Fin (2989264252667167 / 281474976710656)"
    using tax2 by (simp add: computePricing_fields(2)) (simp add: eval64)
  have sum: "(2989264252667167 / 281474976710656 :: rat) \<noteq> 9 + 1823957849085051 / 1125899906842624"
    by simp
  show ?thesis
    using loop1 exact tax1 differ loop2 tax2 total2 sum by blast
qed

text \<open>
  C1, amended. When every line item names an active service of the catalog, the loop of
  \<open>createBooking\<close> ends with one stored entry per item whose subtotal is
  \<open>(basePrice + sum of its add-on prices) * quantity\<close> and with the subtotal that is the sum
  of these, added in order, every operation being a binary64 operation that rounds to the
  nearest double. The tax is the double nearest to \<open>k / 100\<close>, where \<open>k\<close> is the double
  product \<open>(subtotal * 0.18) * 100\<close> rounded half up to an integer (and the product itself
  when that is infinite or NaN); the total is the double sum of subtotal and tax. A single
  item with base price 1000, quantity 1 and no add-ons gives tax 180 and total 1180.
\<close>

theorem createBooking_pricing:
  assumes valid: "list_all (validItem catalog) (bb_services body)"
  shows "\<exists>sub vs.
      validateServices catalog (bb_services body) (Fin 0) [] = Inr (sub, vs)
    \<and> list_all2 (pricedAs catalog) (bb_services body) vs
    \<and> sub = foldl js_add (Fin 0) (map bs_subtotal vs)
    \<and> subtotal (computePricing sub) = sub
    \<and> (\<forall>p. js_mul (js_mul sub (round64 (18 / 100))) (Fin 100) = Fin p
          \<longrightarrow> (\<exists>k. p - 1 / 2 < of_int k \<and> of_int k \<le> p + 1 / 2
                  \<and> tax (computePricing sub) = round64 (of_int k / 100)))
    \<and> ((\<forall>p. js_mul (js_mul sub (round64 (18 / 100))) (Fin 100) \<noteq> Fin p)
          \<longrightarrow> tax (computePricing sub) = js_mul (js_mul sub (round64 (18 / 100))) (Fin 100))
    \<and> total (computePricing sub) = js_add sub (tax (computePricing sub))
    \<and> (\<forall>item svc. bb_services body = [item]
          \<and> findOne (\<lambda>s. s_id s = si_serviceId item) catalog = Some svc
          \<and> basePrice svc = Fin 1000 \<and> si_quantity item = Fin 1
          \<and> (si_addOns item = None \<or> si_addOns item = Some [])
          \<longrightarrow> tax (computePricing sub) = Fin 180 \<and> total (computePricing sub) = Fin 1180)"
proof -
  from validateServices_valid [OF valid, of "Fin 0" "[]"] obtain vs where
    run: "validateServices catalog (bb_services body) (Fin 0) []
            = Inr (foldl js_add (Fin 0) (map bs_subtotal vs), vs)"
    and priced: "list_all2 (pricedAs catalog) (bb_services body) vs"
    by auto
  let ?sub = "foldl js_add (Fin 0) (map bs_subtotal vs)"
  let ?prod = "js_mul (js_mul ?sub (round64 (18 / 100))) (Fin 100)"
  have finite: "\<forall>p. ?prod = Fin p
          \<longrightarrow> (\<exists>k. p - 1 / 2 < of_int k \<and> of_int k \<le> p + 1 / 2
                  \<and> tax (computePricing ?sub) = round64 (of_int k / 100))"
    using computePricing_tax_finite [of ?sub] by blast
  have infinite: "(\<forall>p. ?prod \<noteq> Fin p) \<longrightarrow> tax (computePricing ?sub) = ?prod"
    by (cases ?prod) (simp_all add: computePricing_def Let_def)
  have single: "\<forall>item svc. bb_services body = [item]
          \<and> findOne (\<lambda>s. s_id s = si_serviceId item) catalog = Some svc
          \<and> basePrice svc = Fin 1000 \<and> si_quantity item = Fin 1
          \<and> (si_addOns item = None \<or> si_addOns item = Some [])
          \<longrightarrow> tax (computePricing ?sub) = Fin 180 \<and> total (computePricing ?sub) = Fin 1180"
  proof (intro allI impI)
    fix item svc
    assume a: "bb_services body = [item]
          \<and> findOne (\<lambda>s. s_id s = si_serviceId item) catalog = Some svc
          \<and> basePrice svc = Fin 1000 \<and> si_quantity item = Fin 1
          \<and> (si_addOns item = None \<or> si_addOns item = Some [])"
    with priced obtain v where v: "vs = [v]" "pricedAs catalog item v"
      by (auto simp: list_all2_Cons1)
    from v(2) a have "bs_subtotal v = Fin 1000"
      by (auto simp: pricedAs_def addOnSum_def falsy_def round64_small_integers)
    with v(1) have "?sub = Fin 1000"
      by (simp add: round64_small_integers)
    then show "tax (computePricing ?sub) = Fin 180 \<and> total (computePricing ?sub) = Fin 1180"
      by (simp add: computePricing_1000 ex_pricing_def)
  qed
  show ?thesis
    using run priced finite infinite single computePricing_fields(1,2) [of ?sub] by blast
qed

theorem createBooking_pricing_witness:
  "list_all (validItem ex_catalog) (bb_services ex_bookingBody)
   \<and> (\<exists>vs. validateServices ex_catalog (bb_services ex_bookingBody) (Fin 0) []
              = Inr (Fin 1000, vs)
          \<and> list_all2 (pricedAs ex_catalog) (bb_services ex_bookingBody) vs)
   \<and> js_mul (js_mul (Fin 1000) (round64 (18 / 100))) (Fin 100) = Fin 18000
   \<and> tax (computePricing (Fin 1000)) = Fin 180
   \<and> total (computePricing (Fin 1000)) = Fin 1180"
proof -
  have h: "list_all (validItem ex_catalog) (bb_services ex_bookingBody)"
    by (simp add: validItem_def ex_catalog_def ex_bookingBody_def)
  from createBooking_pricing [OF h] obtain sub vs where
    r: "validateServices ex_catalog (bb_services ex_bookingBody) (Fin 0) [] = Inr (sub, vs)"
       "list_all2 (pricedAs ex_catalog) (bb_services ex_bookingBody) vs"
    by blast
  have "sub = Fin 1000"
    using r(1)
    by (simp add: ex_catalog_def ex_bookingBody_def itemTotal_def addOnTotal_def
        round64_small_integers)
  moreover have "js_mul (js_mul (Fin 1000) (round64 (18 / 100))) (Fin 100) = Fin 18000"
    by (simp add: round64_018) (simp add: eval64)
  ultimately show ?thesis
    using r h by (auto simp: computePricing_1000 ex_pricing_def)
qed

subsection \<open>Cancellation\<close>

text \<open>
  C7. \<open>canCancel\<close> holds exactly when the current time is strictly earlier than the
  scheduled date minus two hours (7 200 000 ms) and the status is pending or confirmed.
  At the boundary, the current time being the scheduled date minus exactly two hours, it
  is false. And when it is false for the booking that \<open>cancelBooking\<close> finds, the handler
  refuses (400, or 403 for a customer who does not own the booking) and the store is
  unchanged.
\<close>

theorem canCancel_window:
  "canCancel now b
     = (now < scheduledDate b - 7200000 \<and> (b_status b = BPending \<or> b_status b = BConfirmed))
   \<and> (now = scheduledDate b - 7200000 \<longrightarrow> \<not> canCancel now b)
   \<and> (findOne (\<lambda>d. b_id d = bid) (bookings st) = Some b \<and> \<not> canCancel now b \<longrightarrow>
        snd (cancelBooking now usr bid reason st) = st
        \<and> res_status (fst (cancelBooking now usr bid reason st)) \<in> {400, 403}
        \<and> (\<not> (u_role usr = Customer \<and> b_customerId b \<noteq> u_id usr) \<longrightarrow>
             fst (cancelBooking now usr bid reason st)
               = Response 400 ''Booking cannot be cancelled at this time'' None))"
  by (auto simp: canCancel_def cancelBooking_def Let_def)

theorem canCancel_window_witness:
  "findOne (\<lambda>d. b_id d = ''b1'') [ex_booking] = Some ex_booking
   \<and> \<not> canCancel 2800000 ex_booking
   \<and> 2800000 = scheduledDate ex_booking - 7200000
   \<and> canCancel 2799999 ex_booking
   \<and> cancelBooking 2800000 ex_customer ''b1'' None
        \<lparr>payments = [], bookings = [ex_booking], gatewayCalls = []\<rparr>
       = (Response 400 ''Booking cannot be cancelled at this time'' None,
          \<lparr>payments = [], bookings = [ex_booking], gatewayCalls = []\<rparr>)"
proof -
  have found: "findOne (\<lambda>d. b_id d = ''b1'') [ex_booking] = Some ex_booking"
    by (simp add: ex_booking_def)
  have edge: "2800000 = scheduledDate ex_booking - 7200000"
    by (simp add: ex_booking_def)
  have owner: "\<not> (u_role ex_customer = Customer \<and> b_customerId ex_booking \<noteq> u_id ex_customer)"
    by (simp add: ex_booking_def ex_customer_def)
  note w = canCancel_window [of 2800000 ex_booking "''b1''"
      "\<lparr>payments = [], bookings = [ex_booking], gatewayCalls = []\<rparr>" ex_customer None]
  note w' = canCancel_window [of 2799999 ex_booking "''b1''"
      "\<lparr>payments = [], bookings = [ex_booking], gatewayCalls = []\<rparr>" ex_customer None]
  have no: "\<not> canCancel 2800000 ex_booking"
    using w edge by blast
  have yes: "canCancel 2799999 ex_booking"
    using w' by (simp add: ex_booking_def)
  have "cancelBooking 2800000 ex_customer ''b1'' None
          \<lparr>payments = [], bookings = [ex_booking], gatewayCalls = []\<rparr>
        = (Response 400 ''Booking cannot be cancelled at this time'' None,
           \<lparr>payments = [], bookings = [ex_booking], gatewayCalls = []\<rparr>)"
    using w found no owner by (simp add: prod_eq_iff)
  with found no edge yes show ?thesis by blast
qed

subsection \<open>Payment verification\<close>

lemma verifyPayment_mismatch:
  "key_secret pf = Some key \<Longrightarrow>
   razorpay_signature body
     \<noteq> hmac_sha256 pf key (razorpay_order_id body @ ''|'' @ razorpay_payment_id body) \<Longrightarrow>
   verifyPayment pf usr body st = (Response 400 ''Payment verification failed'' None, st)"
  by (simp add: verifyPayment_def expectedSign_def)

text \<open>
  On a matching signature with a Payment found by the order id, the Payment is written
  first; the booking update then throws on the cast, whatever the booking id.
\<close>

lemma verifyPayment_match:
  assumes "key_secret pf = Some key"
    and "razorpay_signature body
           = hmac_sha256 pf key (razorpay_order_id body @ ''|'' @ razorpay_payment_id body)"
    and "findOne (\<lambda>p. transactionId p = razorpay_order_id body) (payments st) = Some pay"
  shows "verifyPayment pf usr body st =
     (Response 500 ''Payment verification failed'' None,
      st\<lparr>payments := updateOne (\<lambda>p. transactionId p = razorpay_order_id body)
                        (markVerified body) (payments st)\<rparr>)"
  using assms
  by (simp add: verifyPayment_def expectedSign_def findOneAndUpdate_def
      updateBookingPayment_def)

lemma verifyPayment_payment_success:
  assumes "key_secret pf = Some key"
    and "razorpay_signature body
           = hmac_sha256 pf key (razorpay_order_id body @ ''|'' @ razorpay_payment_id body)"
    and "findOne (\<lambda>p. transactionId p = razorpay_order_id body) (payments st) = Some pay"
  shows "findOne (\<lambda>p. transactionId p = razorpay_order_id body)
           (payments (snd (verifyPayment pf usr body st)))
         = Some (pay\<lparr>gatewayTransactionId := Some (razorpay_payment_id body),
                    p_status := PSuccess,
                    p_details := Some \<lparr>razorpayOrderId = razorpay_order_id body,
                                       razorpayPaymentId = razorpay_payment_id body,
                                       razorpaySignature = razorpay_signature body\<rparr>\<rparr>)"
  using findOne_Some_holds [OF assms(3)] assms(3)
  by (simp add: verifyPayment_match [OF assms] findOne_updateOne_same markVerified_def)

text \<open>No run of \<open>verifyPayment\<close> changes a booking, and none is answered 200.\<close>

lemma verifyPayment_keeps_bookings:
  "bookings (snd (verifyPayment pf usr body st)) = bookings st"
  by (simp add: verifyPayment_def findOneAndUpdate_def updateBookingPayment_def
      split: option.splits)

lemma verifyPayment_never_200:
  "res_status (fst (verifyPayment pf usr body st)) \<noteq> 200"
  by (simp add: verifyPayment_def findOneAndUpdate_def updateBookingPayment_def
      split: option.splits)

text \<open>
  C2 does not hold of \<open>verifyPayment\<close> when the signature matches. Customer \<open>u1\<close> verifies
  the payment of order \<open>order_1\<close> for booking \<open>b1\<close> with the right signature: the Payment
  is set to success, but the handler answers 500 and booking \<open>b1\<close> stays confirmed with
  no payment reference.
\<close>

theorem verifyPayment_match_leaves_booking:
  "razorpay_signature (ex_verifyBody\<lparr>vb_bookingId := ''b1''\<rparr>)
     = hmac_sha256 ex_platform ''k1'' (''order_1'' @ ''|'' @ ''pay_1'')
   \<and> findOne (\<lambda>p. transactionId p = ''order_1'') (payments ex_store) = Some ex_initiated
   \<and> findOne (\<lambda>b. b_id b = ''b1'') (bookings ex_store) = Some ex_booking
   \<and> b_status ex_booking = BConfirmed \<and> b_payment ex_booking = None
   \<and> verifyPayment ex_platform ex_customer (ex_verifyBody\<lparr>vb_bookingId := ''b1''\<rparr>) ex_store
       = (Response 500 ''Payment verification failed'' None,
          ex_store
            \<lparr>payments :=
               [ex_initiated
                  \<lparr>gatewayTransactionId := Some ''pay_1'', p_status := PSuccess,
                   p_details := Some \<lparr>razorpayOrderId = ''order_1'',
                                      razorpayPaymentId = ''pay_1'',
                                      razorpaySignature = ''k1#order_1|pay_1''\<rparr>\<rparr>,
                ex_paid]\<rparr>)"
  by (simp add: verifyPayment_def expectedSign_def findOneAndUpdate_def
      updateBookingPayment_def ex_platform_def ex_verifyBody_def ex_store_def
      ex_initiated_def ex_paid_def ex_booking_def markVerified_def)

text \<open>
  C10 does not hold of \<open>verifyPayment\<close>. Customer \<open>u1\<close> verifies the payment of order
  \<open>order_1\<close>, which belongs to booking \<open>b1\<close>, and names booking \<open>b2\<close> of customer \<open>u2\<close>:
  the handler answers 500 and no booking is set to assigned, neither \<open>b2\<close> nor \<open>b1\<close>.
\<close>

theorem verifyPayment_other_booking_unchanged:
  "razorpay_signature ex_verifyBody
     = hmac_sha256 ex_platform ''k1'' (''order_1'' @ ''|'' @ ''pay_1'')
   \<and> findOne (\<lambda>p. transactionId p = ''order_1'') (payments ex_store) = Some ex_initiated
   \<and> p_bookingId ex_initiated = ''b1'' \<and> vb_bookingId ex_verifyBody = ''b2''
   \<and> findOne (\<lambda>b. b_id b = ''b2'') (bookings ex_store) = Some ex_otherBooking
   \<and> res_status (fst (verifyPayment ex_platform ex_customer ex_verifyBody ex_store)) = 500
   \<and> bookings (snd (verifyPayment ex_platform ex_customer ex_verifyBody ex_store))
       = [ex_booking, ex_otherBooking]
   \<and> map b_status [ex_booking, ex_otherBooking] = [BConfirmed, BPending]
   \<and> map p_status (payments (snd (verifyPayment ex_platform ex_customer ex_verifyBody ex_store)))
       = [PSuccess, PSuccess]"
  by (simp add: verifyPayment_def expectedSign_def findOneAndUpdate_def
      updateBookingPayment_def ex_platform_def ex_verifyBody_def ex_store_def
      ex_initiated_def ex_paid_def ex_booking_def ex_otherBooking_def markVerified_def)

subsection \<open>Webhook events\<close>

lemma webhook_captured_run:
  assumes "webhook_secret pf = Some secret"
    and "signature = Some (hmac_sha256 pf secret (json_stringify pf body))"
    and "event body = ''payment.captured''"
    and "payload_payment body = Some pe"
  shows "handleRazorpayWebhook pf t signature body st =
           (Response 200 ''OK'' None,
            st\<lparr>payments := updateOne (\<lambda>p. transactionId p = pe_order_id pe)
                              (markCaptured pe) (payments st)\<rparr>)"
  using assms by (simp add: handleRazorpayWebhook_def)

lemma webhook_failed_run:
  assumes "webhook_secret pf = Some secret"
    and "signature = Some (hmac_sha256 pf secret (json_stringify pf body))"
    and "event body = ''payment.failed''"
    and "payload_payment body = Some pe"
  shows "handleRazorpayWebhook pf t signature body st =
           (Response 200 ''OK'' None,
            st\<lparr>payments := updateOne (\<lambda>p. transactionId p = pe_order_id pe)
                              markFailed (payments st)\<rparr>)"
  using assms by (simp add: handleRazorpayWebhook_def)

text \<open>
  C6. For a validly signed \<open>payment.captured\<close> event, handling it a second time, on the
  store the first handling left, answers 200 again and returns the very same store. After
  the first handling the Payment found by the event's order id has status success and the
  event's payment id as gateway transaction id; bookings and gateway calls are untouched.
\<close>

theorem webhook_captured_idempotent:
  assumes secret: "webhook_secret pf = Some secret"
    and sig: "signature = Some (hmac_sha256 pf secret (json_stringify pf body))"
    and ev: "event body = ''payment.captured''"
    and pe: "payload_payment body = Some pe"
  shows
    "handleRazorpayWebhook pf t2 signature body (snd (handleRazorpayWebhook pf t1 signature body st))
       = handleRazorpayWebhook pf t1 signature body st
   \<and> fst (handleRazorpayWebhook pf t1 signature body st) = Response 200 ''OK'' None
   \<and> (\<forall>pay. findOne (\<lambda>p. transactionId p = pe_order_id pe) (payments st) = Some pay
        \<longrightarrow> findOne (\<lambda>p. transactionId p = pe_order_id pe)
               (payments (snd (handleRazorpayWebhook pf t1 signature body st)))
             = Some (pay\<lparr>p_status := PSuccess, gatewayTransactionId := Some (pe_id pe)\<rparr>))
   \<and> bookings (snd (handleRazorpayWebhook pf t1 signature body st)) = bookings st
   \<and> gatewayCalls (snd (handleRazorpayWebhook pf t1 signature body st)) = gatewayCalls st"
proof -
  let ?f = "\<lambda>p. transactionId p = pe_order_id pe"
  let ?st1 = "st\<lparr>payments := updateOne ?f (markCaptured pe) (payments st)\<rparr>"
  have first: "handleRazorpayWebhook pf t1 signature body st = (Response 200 ''OK'' None, ?st1)"
    by (rule webhook_captured_run [OF secret sig ev pe])
  have again: "updateOne ?f (markCaptured pe) (updateOne ?f (markCaptured pe) (payments st))
                 = updateOne ?f (markCaptured pe) (payments st)"
    by (rule updateOne_idem) (simp_all add: markCaptured_def)
  have second: "handleRazorpayWebhook pf t2 signature body ?st1 = (Response 200 ''OK'' None, ?st1)"
    using webhook_captured_run [OF secret sig ev pe, of t2 ?st1] by (simp add: again)
  have found: "findOne ?f (payments st) = Some pay
        \<Longrightarrow> findOne ?f (payments ?st1)
             = Some (pay\<lparr>p_status := PSuccess, gatewayTransactionId := Some (pe_id pe)\<rparr>)" for pay
    using findOne_Some_holds [of ?f "payments st" pay]
    by (simp add: findOne_updateOne_same markCaptured_def)
  show ?thesis
    using second found by (simp add: first)
qed

theorem webhook_captured_idempotent_witness:
  "webhook_secret ex_platform = Some ''w1''
   \<and> findOne (\<lambda>p. transactionId p = ''order_1'') (payments ex_store) = Some ex_initiated
   \<and> handleRazorpayWebhook ex_platform 6000 (Some ''w1#payment.captured'') (ex_capturedEvent ''order_1'' ''pay_1'')
        (snd (handleRazorpayWebhook ex_platform 5000 (Some ''w1#payment.captured'') (ex_capturedEvent ''order_1'' ''pay_1'') ex_store))
      = handleRazorpayWebhook ex_platform 5000 (Some ''w1#payment.captured'') (ex_capturedEvent ''order_1'' ''pay_1'') ex_store
   \<and> findOne (\<lambda>p. transactionId p = ''order_1'')
        (payments (snd (handleRazorpayWebhook ex_platform 5000 (Some ''w1#payment.captured'') (ex_capturedEvent ''order_1'' ''pay_1'') ex_store)))
      = Some (ex_initiated\<lparr>p_status := PSuccess, gatewayTransactionId := Some ''pay_1''\<rparr>)"
proof -
  have secret: "webhook_secret ex_platform = Some ''w1''"
    by (simp add: ex_platform_def)
  have sig: "Some ''w1#payment.captured''
      = Some (hmac_sha256 ex_platform ''w1'' (json_stringify ex_platform (ex_capturedEvent ''order_1'' ''pay_1'')))"
    by (simp add: ex_platform_def ex_capturedEvent_def)
  have ev: "event (ex_capturedEvent ''order_1'' ''pay_1'') = ''payment.captured''"
    by (simp add: ex_capturedEvent_def)
  have pe: "payload_payment (ex_capturedEvent ''order_1'' ''pay_1'') = Some \<lparr>pe_id = ''pay_1'', pe_order_id = ''order_1''\<rparr>"
    by (simp add: ex_capturedEvent_def)
  have found: "findOne (\<lambda>p. transactionId p = ''order_1'') (payments ex_store) = Some ex_initiated"
    by (simp add: ex_store_def ex_initiated_def)
  from webhook_captured_idempotent [OF secret sig ev pe, of 6000 5000 ex_store] found secret
  show ?thesis by simp
qed

text \<open>
  C5, as stated, fails: a Payment with status success is set to failed by a validly
  signed \<open>payment.failed\<close> event for its order.
\<close>

theorem webhook_failed_after_success_counterexample:
  "p_status ex_paid = PSuccess
   \<and> handleRazorpayWebhook ex_platform 5000 (Some ''w1#payment.failed'') ex_failedEvent
        \<lparr>payments = [ex_paid], bookings = [ex_booking], gatewayCalls = []\<rparr>
      = (Response 200 ''OK'' None,
         \<lparr>payments = [ex_paid\<lparr>p_status := PFailed\<rparr>], bookings = [ex_booking],
          gatewayCalls = []\<rparr>)"
  by (simp add: handleRazorpayWebhook_def ex_platform_def ex_failedEvent_def ex_paid_def
      markFailed_def)

text \<open>
  C5, amended. For every Payment found by the order id of a validly signed
  \<open>payment.failed\<close> event, whatever its status before, success included, the handler
  answers 200 and the Payment's status is failed afterwards; its other fields are kept.
\<close>

theorem webhook_failed_sets_failed:
  assumes secret: "webhook_secret pf = Some secret"
    and sig: "signature = Some (hmac_sha256 pf secret (json_stringify pf body))"
    and ev: "event body = ''payment.failed''"
    and pe: "payload_payment body = Some pe"
    and found: "findOne (\<lambda>p. transactionId p = pe_order_id pe) (payments st) = Some pay"
  shows
    "fst (handleRazorpayWebhook pf t signature body st) = Response 200 ''OK'' None
   \<and> findOne (\<lambda>p. transactionId p = pe_order_id pe)
        (payments (snd (handleRazorpayWebhook pf t signature body st)))
      = Some (pay\<lparr>p_status := PFailed\<rparr>)"
  using findOne_Some_holds [OF found] found
  by (simp add: webhook_failed_run [OF secret sig ev pe] findOne_updateOne_same markFailed_def)

theorem webhook_failed_sets_failed_witness:
  "webhook_secret ex_platform = Some ''w1''
   \<and> findOne (\<lambda>p. transactionId p = ''order_2'') (payments ex_store) = Some ex_paid
   \<and> p_status ex_paid = PSuccess
   \<and> findOne (\<lambda>p. transactionId p = ''order_2'')
        (payments (snd (handleRazorpayWebhook ex_platform 5000 (Some ''w1#payment.failed'')
           ex_failedEvent ex_store)))
      = Some (ex_paid\<lparr>p_status := PFailed\<rparr>)"
proof -
  have secret: "webhook_secret ex_platform = Some ''w1''"
    by (simp add: ex_platform_def)
  have sig: "Some ''w1#payment.failed''
      = Some (hmac_sha256 ex_platform ''w1'' (json_stringify ex_platform ex_failedEvent))"
    by (simp add: ex_platform_def ex_failedEvent_def)
  have ev: "event ex_failedEvent = ''payment.failed''"
    by (simp add: ex_failedEvent_def)
  have pe: "payload_payment ex_failedEvent = Some \<lparr>pe_id = ''pay_2'', pe_order_id = ''order_2''\<rparr>"
    by (simp add: ex_failedEvent_def)
  have found: "findOne (\<lambda>p. transactionId p = pe_order_id \<lparr>pe_id = ''pay_2'', pe_order_id = ''order_2''\<rparr>)
                 (payments ex_store) = Some ex_paid"
    by (simp add: ex_store_def ex_initiated_def ex_paid_def)
  from webhook_failed_sets_failed [OF secret sig ev pe found, of 5000] found secret
  show ?thesis by (simp add: ex_paid_def)
qed

subsection \<open>Creating an order\<close>

text \<open>
  The guard of \<open>createOrder\<close> reads one Payment of the booking, the first. When that one
  has status success the request is refused before anything is written.
\<close>

lemma createOrder_first_payment_success:
  assumes "findOne (\<lambda>b. b_id b = ob_bookingId body) (bookings st) = Some bk"
    and "b_customerId bk = u_id usr" and "b_status bk = BConfirmed"
    and "findOne (\<lambda>p. p_bookingId p = ob_bookingId body) (payments st) = Some pay"
    and "p_status pay = PSuccess"
  shows "createOrder razorpay t newId usr body st
           = (Response 400 ''Payment already completed for this booking'' None, st)"
  using assms by (simp add: createOrder_def)

text \<open>
  The store \<open>ex_store\<close> is reached by the handlers themselves: the owner opens a checkout
  and leaves it, opens a second one and pays it, and the gateway's \<open>payment.captured\<close>
  webhook marks the second Payment success while the booking stays confirmed.
\<close>

lemma ex_store_reachable:
  "snd (handleRazorpayWebhook ex_platform 3500 (Some ''w1#payment.captured'')
          (ex_capturedEvent ''order_2'' ''pay_2'')
          (snd (createOrder (Some (ex_gateway ''order_2'')) 3000 ''p2'' ex_customer
                  \<lparr>ob_bookingId = ''b1'', ob_amount = 1180\<rparr>
                  (snd (createOrder (Some (ex_gateway ''order_1'')) 2000 ''p1'' ex_customer
                          \<lparr>ob_bookingId = ''b1'', ob_amount = 1180\<rparr>
                          (ex_store\<lparr>payments := []\<rparr>))))))
     = ex_store\<lparr>gatewayCalls :=
         [OrderCreated \<lparr>oo_amount = 118000, oo_currency = ''INR'',
            oo_receipt = ''booking_DC202611010001'', oo_bookingId = ''b1'',
            oo_customerId = ''u1''\<rparr>,
          OrderCreated \<lparr>oo_amount = 118000, oo_currency = ''INR'',
            oo_receipt = ''booking_DC202611010001'', oo_bookingId = ''b1'',
            oo_customerId = ''u1''\<rparr>]\<rparr>"
  by (simp add: createOrder_def Let_def handleRazorpayWebhook_def markCaptured_def ex_store_def
      ex_initiated_def ex_paid_def ex_booking_def ex_otherBooking_def ex_customer_def
      ex_gateway_def ex_noRefund_def ex_platform_def ex_capturedEvent_def)

text \<open>
  C3 does not hold of \<open>createOrder\<close>. In \<open>ex_store\<close> booking \<open>b1\<close> has a Payment with status
  success, but its first Payment is the abandoned one; the owner's next \<open>createOrder\<close> is
  answered 200, a gateway order is created and a third Payment is stored.
\<close>

theorem createOrder_after_success:
  "list_ex (\<lambda>p. p_bookingId p = ''b1'' \<and> p_status p = PSuccess) (payments ex_store)
   \<and> createOrder (Some (ex_gateway ''order_3'')) 4000 ''p3'' ex_customer
        \<lparr>ob_bookingId = ''b1'', ob_amount = 1180\<rparr> ex_store
      = (Response 200 ''Payment order created successfully''
           (Some \<lparr>od_orderId = ''order_3'', od_amount = 118000, od_currency = ''INR'',
                  od_paymentId = ''p3''\<rparr>),
         ex_store
           \<lparr>payments :=
              [ex_initiated, ex_paid,
               ex_initiated\<lparr>p_id := ''p3'', transactionId := ''order_3'',
                 gatewayOrderId := Some ''order_3'', p_createdAt := 4000\<rparr>],
            gatewayCalls :=
              [OrderCreated \<lparr>oo_amount = 118000, oo_currency = ''INR'',
                 oo_receipt = ''booking_DC202611010001'', oo_bookingId = ''b1'',
                 oo_customerId = ''u1''\<rparr>]\<rparr>)"
  by (simp add: createOrder_def ex_store_def ex_initiated_def ex_paid_def ex_booking_def
      ex_otherBooking_def ex_customer_def ex_gateway_def ex_noRefund_def)

subsection \<open>Refunds\<close>

text \<open>
  The method of the Payment schema refuses an amount above the Payment's, and writes
  nothing.
\<close>

lemma payment_processRefund_exceeds:
  "amt > amount pay \<Longrightarrow>
   payment_processRefund t pay amt reason by st = Inl ''Payment cannot be refunded''
   \<or> payment_processRefund t pay amt reason by st
        = Inl ''Refund amount cannot exceed payment amount''"
  by (simp add: payment_processRefund_def)

text \<open>
  C4 does not hold of the controller, which never calls that method and compares no
  amounts: asked to refund 5000 on a Payment of 1180, it sends the refund to the gateway
  and, the gateway accepting, stores the refund of 5000, sets the Payment to refunded and
  the booking to refunded.
\<close>

theorem processRefund_exceeding_amount:
  "amount ex_paid = 1180
   \<and> processRefund (Some (ex_gateway ''order_3'')) 7000 ''p2'' \<lparr>rb_amount = 5000, rb_reason = None\<rparr>
        \<lparr>payments = [ex_paid], bookings = [ex_booking], gatewayCalls = []\<rparr>
      = (Response 200 ''Refund processed successfully''
           (Some \<lparr>rd_refundId = ''rfnd_1'', rd_amount = 5000, rd_status = ''processed''\<rparr>),
         \<lparr>payments =
            [ex_paid\<lparr>p_status := PRefunded,
               p_refund := \<lparr>isRefunded = True, refundAmount = Some 5000,
                            refundTransactionId = Some ''rfnd_1'', refundedAt = Some 7000,
                            refundReason = None, processedBy = None\<rparr>\<rparr>],
          bookings =
            [ex_booking\<lparr>b_status := BRefunded,
               b_cancellation := \<lparr>isCancelled = True, cancelledBy = None,
                                  cancelledAt = Some 7000, cancellationReason = None,
                                  c_refundAmount = Some 5000\<rparr>\<rparr>],
          gatewayCalls = [RefundIssued (Some ''pay_2'') 500000]\<rparr>)"
  by (simp add: processRefund_def ex_paid_def ex_booking_def ex_gateway_def reasonOr_def)

subsection \<open>Reading payments\<close>

text \<open>\<open>getPayment\<close> gives a customer only a Payment of their own, and 403 for another's.\<close>

lemma getPayment_customer_own:
  "u_role usr = Customer \<Longrightarrow> getPayment usr pid st = Response c m (Some pay) \<Longrightarrow>
   p_customerId pay = u_id usr"
  by (auto simp: getPayment_def split: option.splits if_splits)

lemma getPayment_customer_other:
  "u_role usr = Customer \<Longrightarrow> findOne (\<lambda>p. p_id p = pid) (payments st) = Some pay \<Longrightarrow>
   p_customerId pay \<noteq> u_id usr \<Longrightarrow>
   getPayment usr pid st = Response 403 ''Not authorized to view this payment'' None"
  by (simp add: getPayment_def)

text \<open>
  C8 does not hold of \<open>getBookingPayments\<close>, which does not look at the requester:
  customer \<open>u2\<close>, who owns none of the stored Payments, lists the Payments of booking
  \<open>b1\<close> and receives both Payments of customer \<open>u1\<close>.
\<close>

theorem getBookingPayments_other_customer:
  "u_role ex_otherCustomer = Customer
   \<and> list_all (\<lambda>p. p_customerId p \<noteq> u_id ex_otherCustomer) (payments ex_store)
   \<and> getBookingPayments ex_otherCustomer ''b1'' ex_store
      = Response 200 ''Booking payments retrieved successfully'' (Some [ex_paid, ex_initiated])"
  by (simp add: getBookingPayments_def ex_otherCustomer_def ex_store_def ex_initiated_def
      ex_paid_def)

subsection \<open>Booking numbers\<close>

text \<open>
  The document that \<open>createBooking\<close> builds names no booking number, so it never passes
  the schema's validators, and the hook that would give it a number is not reached.
\<close>

lemma newBooking_invalid: "\<not> validateBooking t (newBooking c newId usr body sub validated)"
  by (simp add: validateBooking_def newBooking_def)

lemma createBooking_stores_nothing:
  "snd (createBooking catalog c newId usr body st) = st"
  by (simp add: createBooking_def Booking_create_def newBooking_invalid split: sum.splits)

lemma createBooking_valid_items:
  assumes "list_all (validItem catalog) (bb_services body)"
  shows "createBooking catalog c newId usr body st
           = (Response 500 ''Failed to create booking'' None, st)"
proof -
  from validateServices_valid [OF assms, of "Fin 0" "[]"] obtain sub vs where
    "validateServices catalog (bb_services body) (Fin 0) [] = Inr (sub, vs)"
    by auto
  then show ?thesis
    by (simp add: createBooking_def Booking_create_def newBooking_invalid)
qed

text \<open>
  C9 does not hold of \<open>createBooking\<close>: no booking number is generated. Two valid
  creation requests of the same day, of customers \<open>u1\<close> and \<open>u2\<close>, are both answered 500
  and the store holds no booking afterwards. No handler step writes to the store, so the
  order in which the steps of the two requests run makes no difference.
\<close>

theorem createBooking_generates_no_number:
  "list_all (validItem ex_catalog) (bb_services ex_bookingBody)
   \<and> createBooking ex_catalog ex_clock ''b1'' ex_customer ex_bookingBody ex_emptyStore
       = (Response 500 ''Failed to create booking'' None, ex_emptyStore)
   \<and> createBooking ex_catalog ex_clock ''b2'' ex_otherCustomer ex_bookingBody ex_emptyStore
       = (Response 500 ''Failed to create booking'' None, ex_emptyStore)
   \<and> map bookingNumber (bookings ex_emptyStore) = []"
proof -
  have valid: "list_all (validItem ex_catalog) (bb_services ex_bookingBody)"
    by (simp add: validItem_def ex_catalog_def ex_bookingBody_def)
  show ?thesis
    using valid createBooking_valid_items [OF valid]
    by (simp add: ex_emptyStore_def)
qed

end
